theory Spec2Isabelle
  imports Main
begin

section \<open>Configuration (main.py, lines 9-11)\<close>

text \<open>
  The program is a thin layer over Python's standard library: it fixes a port and a
  directory, registers three MIME types, subclasses the library's file-serving request
  handler and starts a threaded server. The embedding translates the statements of
  main.py, and the methods of the library through which the handler's responses are
  produced (Python 3.11). The functions of \<^verbatim>\<open>os.path\<close> that compute the directory and the
  outcomes of the calls that can fail at startup are parameters.
\<close>

definition PORT :: nat where
  "PORT = 8000"

text \<open>
  \<^verbatim>\<open>DIRECTORY = os.path.dirname(os.path.abspath(__file__))\<close>: evaluated once, when the
  module is loaded. The two functions of \<^verbatim>\<open>os.path\<close> are parameters; \<open>file\<close> is
  \<^verbatim>\<open>__file__\<close>, the location of the program.
\<close>

definition DIRECTORY :: "(string \<Rightarrow> string) \<Rightarrow> (string \<Rightarrow> string) \<Rightarrow> string \<Rightarrow> string" where
  "DIRECTORY dirname abspath file = dirname (abspath file)"

text \<open>
  The POSIX flavour of \<^verbatim>\<open>os.path.dirname\<close>, for concrete runs: the part of the path up to the
  last slash, without its trailing slashes unless it consists of slashes only.
\<close>

definition rstrip_slash :: "string \<Rightarrow> string" where
  "rstrip_slash s = rev (dropWhile (\<lambda>c. c = CHR ''/'') (rev s))"

definition posix_dirname :: "string \<Rightarrow> string" where
  "posix_dirname p =
     (let head = rev (dropWhile (\<lambda>c. c \<noteq> CHR ''/'') (rev p))
      in if head \<noteq> [] \<and> filter (\<lambda>c. c \<noteq> CHR ''/'') head \<noteq> [] then rstrip_slash head else head)"

text \<open>The decimal digits of a number, as the f-string \<^verbatim>\<open>f"...{PORT}"\<close> formats it.\<close>

fun str :: "nat \<Rightarrow> string" where
  "str n = (if n < 10 then [''0123456789'' ! n] else str (n div 10) @ [''0123456789'' ! (n mod 10)])"

declare str.simps [simp del]

section \<open>Effects of the process\<close>

text \<open>
  The texts the program prints are Chinese sentences with emoji; the console output is for
  a person to read, so each printed line is a constructor, named after the line of main.py
  that prints it, with the values the line interpolates as arguments.
\<close>

datatype message =
    Banner_Top                \<comment> \<open>line 49: a newline and sixty equals signs\<close>
  | Banner_Title              \<comment> \<open>line 50: the name of the game\<close>
  | Banner_Directory string   \<comment> \<open>line 51: the running directory\<close>
  | Banner_Address string     \<comment> \<open>line 52: the address to visit\<close>
  | Banner_Bottom             \<comment> \<open>line 53: sixty equals signs and a newline\<close>
  | Msg_Started               \<comment> \<open>line 63: the server has started and is listening\<close>
  | Msg_Blank_Page_Hint       \<comment> \<open>line 64: press F12 if the page is blank\<close>
  | Msg_Stop_Hint             \<comment> \<open>line 65: Ctrl+C stops the server\<close>
  | Msg_Shutdown              \<comment> \<open>line 68: the server has been shut down safely\<close>
  | Msg_Start_Failed string   \<comment> \<open>line 70: starting failed, with the exception's text\<close>
  | Msg_Port_Hint             \<comment> \<open>line 71: the port may be in use, close other Python windows\<close>

datatype event =
    Mime_Init                 \<comment> \<open>\<^verbatim>\<open>mimetypes.init()\<close>\<close>
  | Add_Type string string    \<comment> \<open>\<^verbatim>\<open>mimetypes.add_type(type, ext)\<close>\<close>
  | Chdir string              \<comment> \<open>\<^verbatim>\<open>os.chdir(dir)\<close>\<close>
  | Print message             \<comment> \<open>\<^verbatim>\<open>print(...)\<close>\<close>
  | Browser_Open string       \<comment> \<open>\<^verbatim>\<open>webbrowser.open(url)\<close>\<close>
  | Server_Create string nat  \<comment> \<open>\<^verbatim>\<open>ThreadedHTTPServer((host, port), GameHandler)\<close>: bind and listen\<close>
  | Serve_Forever             \<comment> \<open>\<^verbatim>\<open>httpd.serve_forever()\<close> is entered\<close>
  | Server_Close              \<comment> \<open>the \<^verbatim>\<open>with\<close> block is left: the server socket is closed\<close>

text \<open>
  Python's exceptions, as far as the \<^verbatim>\<open>except\<close> clauses of the program tell them apart:
  \<^verbatim>\<open>KeyboardInterrupt\<close>, the subclasses of \<^verbatim>\<open>Exception\<close> (with the text \<^verbatim>\<open>str(e)\<close>), and the
  other subclasses of \<^verbatim>\<open>BaseException\<close> (\<^verbatim>\<open>SystemExit\<close>, \<^verbatim>\<open>GeneratorExit\<close>).
\<close>

datatype exn = KeyboardInterrupt | Exception string | Other_BaseException string

text \<open>
  How a statement ends: it returns, it raises, or it never ends (the serve loop of a
  server nobody interrupts).
\<close>

datatype outcome = Returns | Raises exn | Diverges

text \<open>
  What the world decides in a run: whether \<^verbatim>\<open>webbrowser.open\<close> raises, whether creating
  the server (binding the port) raises, and how \<^verbatim>\<open>serve_forever\<close> ends. \<^verbatim>\<open>os.chdir\<close> to the
  directory the running program was loaded from, and \<^verbatim>\<open>print\<close>, are taken to succeed.
\<close>

record env =
  browser :: "exn option"
  bind :: "exn option"
  serve :: outcome

text \<open>Statements in sequence: the second runs when the first has returned.\<close>

definition seq :: "event list \<times> outcome \<Rightarrow> event list \<times> outcome \<Rightarrow> event list \<times> outcome" where
  "seq a b = (case snd a of Returns \<Rightarrow> (fst a @ fst b, snd b) | _ \<Rightarrow> a)"

definition stmt :: "event \<Rightarrow> event list \<times> outcome" where
  "stmt e = ([e], Returns)"

definition call :: "event \<Rightarrow> exn option \<Rightarrow> event list \<times> outcome" where
  "call e r = ([e], case r of None \<Rightarrow> Returns | Some x \<Rightarrow> Raises x)"

section \<open>The module's top level (main.py, lines 15-18)\<close>

definition module_level :: "event list \<times> outcome" where
  "module_level =
     seq (stmt Mime_Init)
    (seq (stmt (Add_Type ''application/javascript'' ''.ts''))
    (seq (stmt (Add_Type ''application/javascript'' ''.tsx''))
         (stmt (Add_Type ''application/json'' ''.json''))))"

section \<open>start_game_server (main.py, lines 46-71)\<close>

text \<open>Lines 47-53: change the working directory and print the banner.\<close>

definition banner :: "string \<Rightarrow> event list \<times> outcome" where
  "banner dir =
     seq (stmt (Chdir dir))
    (seq (stmt (Print Banner_Top))
    (seq (stmt (Print Banner_Title))
    (seq (stmt (Print (Banner_Directory dir)))
    (seq (stmt (Print (Banner_Address (''http://localhost:'' @ str PORT))))
         (stmt (Print Banner_Bottom))))))"

text \<open>
  Lines 56-59: \<^verbatim>\<open>try: webbrowser.open(...)\<close> under a bare \<^verbatim>\<open>except: pass\<close>, which
  catches every exception, \<^verbatim>\<open>KeyboardInterrupt\<close> included, and does nothing.
\<close>

definition except_pass :: "event list \<times> outcome \<Rightarrow> event list \<times> outcome" where
  "except_pass a = (case snd a of Raises x \<Rightarrow> (fst a, Returns) | _ \<Rightarrow> a)"

definition open_browser :: "env \<Rightarrow> event list \<times> outcome" where
  "open_browser w = except_pass (call (Browser_Open (''http://localhost:'' @ str PORT)) (browser w))"

text \<open>
  Lines 62-66: the \<^verbatim>\<open>with\<close> block. When the constructor raises, the block is not entered.
  When the block is left, by return or by exception, the server is closed and the
  exception, if any, goes on to the \<^verbatim>\<open>except\<close> clauses.
\<close>

definition serve_block :: "env \<Rightarrow> event list \<times> outcome" where
  "serve_block w =
     seq (call (Server_Create [] PORT) (bind w))
       (let body =
          seq (stmt (Print Msg_Started))
         (seq (stmt (Print Msg_Blank_Page_Hint))
         (seq (stmt (Print Msg_Stop_Hint))
              ([Serve_Forever], serve w)))
        in (case snd body of Diverges \<Rightarrow> body | r \<Rightarrow> (fst body @ [Server_Close], r)))"

text \<open>
  Lines 67-71: the two \<^verbatim>\<open>except\<close> clauses, in the order of the source. An exception
  that neither clause names leaves the function.
\<close>

definition except_clauses :: "event list \<times> outcome \<Rightarrow> event list \<times> outcome" where
  "except_clauses a =
     (case snd a of
        Raises KeyboardInterrupt \<Rightarrow> seq (fst a, Returns) (stmt (Print Msg_Shutdown))
      | Raises (Exception e) \<Rightarrow>
          seq (fst a, Returns) (seq (stmt (Print (Msg_Start_Failed e))) (stmt (Print Msg_Port_Hint)))
      | _ \<Rightarrow> a)"

definition start_game_server :: "string \<Rightarrow> env \<Rightarrow> event list \<times> outcome" where
  "start_game_server dir w =
     seq (banner dir) (seq (open_browser w) (except_clauses (serve_block w)))"

text \<open>
  The program run as a script: line 11 gives \<^verbatim>\<open>DIRECTORY\<close> its value, the rest of the top
  level follows, then line 75 calls the function. The process ends when this returns (exit
  status 0) or raises (a traceback); with \<open>Diverges\<close> it goes on serving.
\<close>

definition program ::
  "(string \<Rightarrow> string) \<Rightarrow> (string \<Rightarrow> string) \<Rightarrow> string \<Rightarrow> env \<Rightarrow> event list \<times> outcome" where
  "program dirname abspath file w =
     (let dir = DIRECTORY dirname abspath file
      in seq module_level (start_game_server dir w))"

text \<open>
  What the events do to the state of the process: the table of MIME types, the working
  directory and the console. For the table this is what the library documents:
  \<^verbatim>\<open>mimetypes.init()\<close> builds the table from the platform's defaults, here \<open>platform\<close>, and
  \<^verbatim>\<open>mimetypes.add_type(type, ext)\<close> makes \<open>type\<close> the entry of \<open>ext\<close>, in place
  of an older entry if there is one.
\<close>

record process =
  types_map :: "string \<rightharpoonup> string"
  cwd :: string
  stdout :: "message list"

fun exec :: "(string \<rightharpoonup> string) \<Rightarrow> process \<Rightarrow> event \<Rightarrow> process" where
  "exec platform s Mime_Init = s\<lparr>types_map := platform\<rparr>"
| "exec platform s (Add_Type ty ext) = s\<lparr>types_map := (types_map s)(ext \<mapsto> ty)\<rparr>"
| "exec platform s (Chdir d) = s\<lparr>cwd := d\<rparr>"
| "exec platform s (Print m) = s\<lparr>stdout := stdout s @ [m]\<rparr>"
| "exec platform s _ = s"

definition run :: "(string \<rightharpoonup> string) \<Rightarrow> process \<Rightarrow> event list \<Rightarrow> process" where
  "run platform s evs = foldl (exec platform) s evs"

section \<open>The library's request handler (Python 3.11, http/server.py and mimetypes.py)\<close>

text \<open>
  \<open>GameHandler\<close> overrides three methods of \<^verbatim>\<open>SimpleHTTPRequestHandler\<close>; every response is
  put together by the inherited methods, which call \<^verbatim>\<open>self.end_headers()\<close> and so reach the
  override. This section follows the library's methods statement by statement. What they
  ask of the operating system, of \<^verbatim>\<open>urllib.parse\<close> and of the clock is a field of the record
  \<open>library\<close>; writing to the log is left out, and of the exceptions only the
  \<^verbatim>\<open>OSError\<close> of \<^verbatim>\<open>open\<close> and of \<^verbatim>\<open>os.listdir\<close>, which the methods catch. A method that
  calls \<^verbatim>\<open>self.end_headers()\<close> takes that method as the argument \<open>eh\<close>.
\<close>

text \<open>
  What is written to the client and what waits in \<^verbatim>\<open>self._headers_buffer\<close>: the status line
  (protocol version, code, reason), a header, the blank line after the headers, a body.
\<close>

datatype line = Status_Line string nat string | Header string string | Blank_Line | Body string

text \<open>The state of a handler: the attributes of \<^verbatim>\<open>self\<close> that the methods below read or set.\<close>

record handler =
  command :: "string option"
  path :: string
  request_version :: string
  headers :: "(string \<times> string) list"
  directory :: string
  close_connection :: bool
  headers_buffer :: "line list"
  wfile :: "line list"

text \<open>An open file: its bytes, and the size and modification time \<^verbatim>\<open>os.fstat\<close> reports.\<close>

record file_obj =
  data :: string
  st_size :: nat
  st_mtime :: nat

record library =
  translate_path :: "string \<Rightarrow> string \<Rightarrow> string"
    \<comment> \<open>\<^verbatim>\<open>self.translate_path(path)\<close>, from \<^verbatim>\<open>self.directory\<close> and the request target\<close>
  isdir :: "string \<Rightarrow> bool"
  isfile :: "string \<Rightarrow> bool"
  open_rb :: "string \<Rightarrow> file_obj option"
    \<comment> \<open>\<^verbatim>\<open>open(path, 'rb')\<close>; \<open>None\<close> when it raises \<^verbatim>\<open>OSError\<close>\<close>
  listdir :: "string \<Rightarrow> string list option"
    \<comment> \<open>\<^verbatim>\<open>os.listdir(path)\<close>; \<open>None\<close> when it raises \<^verbatim>\<open>OSError\<close>\<close>
  urlsplit :: "string \<Rightarrow> string \<times> string \<times> string \<times> string \<times> string"
    \<comment> \<open>scheme, netloc, path, query, fragment\<close>
  urlunsplit :: "string \<times> string \<times> string \<times> string \<times> string \<Rightarrow> string"
  urlparse :: "string \<Rightarrow> string \<times> string \<times> string \<times> string \<times> string \<times> string"
    \<comment> \<open>scheme, netloc, path, params, query, fragment\<close>
  not_older :: "string \<Rightarrow> nat \<Rightarrow> bool"
    \<comment> \<open>the text of \<^verbatim>\<open>If-Modified-Since\<close> is a well-formed date in UTC and the file's
        modification time, cut to the second, is not later\<close>
  responses :: "nat \<Rightarrow> (string \<times> string) option"
    \<comment> \<open>the table of \<^verbatim>\<open>HTTPStatus\<close>: short and long message of a code\<close>
  version_string :: string
  date_time_string :: "nat option \<Rightarrow> string"
    \<comment> \<open>the date of a timestamp; of the current time for \<open>None\<close>\<close>
  listing_page :: "string \<Rightarrow> string \<Rightarrow> string list \<Rightarrow> string"
    \<comment> \<open>the encoded page \<^verbatim>\<open>list_directory\<close> builds from \<^verbatim>\<open>self.path\<close>, the directory and its entries\<close>
  getfilesystemencoding :: string

subsection \<open>Strings\<close>

text \<open>\<^verbatim>\<open>str.lower()\<close>, on ASCII letters.\<close>

definition lower_char :: "char \<Rightarrow> char" where
  "lower_char c =
     (case map_of (zip ''ABCDEFGHIJKLMNOPQRSTUVWXYZ'' ''abcdefghijklmnopqrstuvwxyz'') c of
        Some d \<Rightarrow> d
      | None \<Rightarrow> c)"

definition lower :: "string \<Rightarrow> string" where
  "lower s = map lower_char s"

definition endswith :: "string \<Rightarrow> string \<Rightarrow> bool" where
  "endswith s suffix = (take (length suffix) (rev s) = rev suffix)"

text \<open>\<^verbatim>\<open>html.escape(s, quote=False)\<close>.\<close>

definition html_escape :: "string \<Rightarrow> string" where
  "html_escape s =
     concat (map (\<lambda>c. if c = CHR ''&'' then ''&amp;''
                      else if c = CHR ''<'' then ''&lt;''
                      else if c = CHR ''>'' then ''&gt;''
                      else [c]) s)"

text \<open>
  \<^verbatim>\<open>posixpath.splitext\<close>: the extension runs from the last dot of the file name, when
  something other than dots comes before that dot in the name; otherwise it is empty.
\<close>

definition splitext :: "string \<Rightarrow> string \<times> string" where
  "splitext p =
     (let name_rev = takeWhile (\<lambda>c. c \<noteq> CHR ''/'') (rev p);
          ext_rev = takeWhile (\<lambda>c. c \<noteq> CHR ''.'') name_rev;
          stem_rev = dropWhile (\<lambda>c. c \<noteq> CHR ''.'') name_rev
      in if stem_rev \<noteq> [] \<and> filter (\<lambda>c. c \<noteq> CHR ''.'') (tl stem_rev) \<noteq> []
         then (take (length p - Suc (length ext_rev)) p, CHR ''.'' # rev ext_rev)
         else (p, []))"

text \<open>\<^verbatim>\<open>posixpath.join(a, b)\<close>.\<close>

definition join :: "string \<Rightarrow> string \<Rightarrow> string" where
  "join a b =
     (if take 1 b = ''/'' then b
      else if a = [] \<or> endswith a ''/'' then a @ b
      else a @ ''/'' @ b)"

subsection \<open>mimetypes.guess_type\<close>

definition suffix_map :: "string \<rightharpoonup> string" where
  "suffix_map =
     [''.svgz'' \<mapsto> ''.svg.gz'', ''.tgz'' \<mapsto> ''.tar.gz'', ''.taz'' \<mapsto> ''.tar.gz'',
      ''.tz'' \<mapsto> ''.tar.gz'', ''.tbz2'' \<mapsto> ''.tar.bz2'', ''.txz'' \<mapsto> ''.tar.xz'']"

definition encodings_map :: "string \<rightharpoonup> string" where
  "encodings_map =
     [''.gz'' \<mapsto> ''gzip'', ''.Z'' \<mapsto> ''compress'', ''.bz2'' \<mapsto> ''bzip2'',
      ''.xz'' \<mapsto> ''xz'', ''.br'' \<mapsto> ''br'']"

text \<open>
  The loop \<^verbatim>\<open>while ext.lower() in suffix_map: base, ext = splitext(base + suffix_map[...])\<close>.
\<close>

function suffix_loop :: "string \<Rightarrow> string \<Rightarrow> string \<times> string" where
  "suffix_loop base ext =
     (case suffix_map (lower ext) of
        None \<Rightarrow> (base, ext)
      | Some s \<Rightarrow> suffix_loop (fst (splitext (base @ s))) (snd (splitext (base @ s))))"
  by pat_completeness auto
termination
proof (relation "measure (\<lambda>(base, ext). if suffix_map (lower ext) = None then 0 else 1)")
  show "wf (measure (\<lambda>(base, ext). if suffix_map (lower ext) = None then 0 else (1::nat)))"
    by simp
next
  fix base ext s
  assume "suffix_map (lower ext) = Some s"
  then have "s \<in> {''.svg.gz'', ''.tar.gz'', ''.tar.bz2'', ''.tar.xz''}"
    by (auto simp add: suffix_map_def split: if_splits)
  then have "snd (splitext (base @ s)) \<in> {''.gz'', ''.bz2'', ''.xz''}"
    by (auto simp add: splitext_def)
  then have "suffix_map (lower (snd (splitext (base @ s)))) = None"
    by (auto simp add: suffix_map_def lower_def lower_char_def)
  with \<open>suffix_map (lower ext) = Some s\<close>
  show "((fst (splitext (base @ s)), snd (splitext (base @ s))), (base, ext))
          \<in> measure (\<lambda>(base, ext). if suffix_map (lower ext) = None then 0 else 1)"
    by (simp add: case_prod_beta)
qed

declare suffix_loop.simps [simp del]

text \<open>The type of a \<^verbatim>\<open>data:\<close> URL, from the text after the scheme.\<close>

definition data_url_type :: "string \<Rightarrow> string option" where
  "data_url_type url =
     (if CHR '','' \<in> set url
      then (let ty = takeWhile (\<lambda>c. c \<noteq> CHR '';'') (takeWhile (\<lambda>c. c \<noteq> CHR '','') url)
            in Some (if CHR ''='' \<in> set ty \<or> CHR ''/'' \<notin> set ty then ''text/plain'' else ty))
      else None)"

text \<open>
  \<^verbatim>\<open>mimetypes.guess_type(url)\<close>, the type it returns; \<open>tm\<close> is the table of the strict types,
  the one \<^verbatim>\<open>mimetypes.add_type\<close> writes to. On POSIX \<^verbatim>\<open>os.path.splitdrive\<close> leaves the path
  as it is.
\<close>

definition mimetypes_guess_type :: "library \<Rightarrow> (string \<rightharpoonup> string) \<Rightarrow> string \<Rightarrow> string option" where
  "mimetypes_guess_type lib tm url =
     (case urlparse lib url of (scheme, netloc, upath, params, query, fragment) \<Rightarrow>
        if scheme \<noteq> [] \<and> 1 < length scheme \<and> scheme = ''data'' then data_url_type upath
        else
          (let url1 = (if scheme \<noteq> [] \<and> 1 < length scheme then upath else url);
               (base, ext) = splitext url1;
               (base, ext) = suffix_loop base ext;
               ext = (if encodings_map ext \<noteq> None then snd (splitext base) else ext)
           in tm (lower ext)))"

subsection \<open>BaseHTTPRequestHandler\<close>

definition protocol_version :: string where
  "protocol_version = ''HTTP/1.0''"

definition error_content_type :: string where
  "error_content_type = ''text/html;charset=utf-8''"

text \<open>
  \<^verbatim>\<open>DEFAULT_ERROR_MESSAGE\<close> with the code, the message and the explanation filled in. This
  is \<^verbatim>\<open>self.error_message_format\<close>, which \<open>GameHandler\<close> does not set.
\<close>

definition error_message_format :: "nat \<Rightarrow> string \<Rightarrow> string \<Rightarrow> string" where
  "error_message_format code message explain =
     ''<!DOCTYPE HTML>'' @ [CHR 0x0A] @
     ''<html lang=\"en\">'' @ [CHR 0x0A] @
     ''    <head>'' @ [CHR 0x0A] @
     ''        <meta charset=\"utf-8\">'' @ [CHR 0x0A] @
     ''        <title>Error response</title>'' @ [CHR 0x0A] @
     ''    </head>'' @ [CHR 0x0A] @
     ''    <body>'' @ [CHR 0x0A] @
     ''        <h1>Error response</h1>'' @ [CHR 0x0A] @
     ''        <p>Error code: '' @ str code @ ''</p>'' @ [CHR 0x0A] @
     ''        <p>Message: '' @ message @ ''.</p>'' @ [CHR 0x0A] @
     ''        <p>Error code explanation: '' @ str code @ '' - '' @ explain @ ''.</p>'' @ [CHR 0x0A] @
     ''    </body>'' @ [CHR 0x0A] @
     ''</html>'' @ [CHR 0x0A]"

definition send_response_only :: "library \<Rightarrow> nat \<Rightarrow> string option \<Rightarrow> handler \<Rightarrow> handler" where
  "send_response_only lib code message h =
     (if request_version h \<noteq> ''HTTP/0.9''
      then (let message =
                  (case message of
                     None \<Rightarrow> (case responses lib code of Some r \<Rightarrow> fst r | None \<Rightarrow> [])
                   | Some m \<Rightarrow> m)
            in h\<lparr>headers_buffer := headers_buffer h @ [Status_Line protocol_version code message]\<rparr>)
      else h)"

definition send_header :: "string \<Rightarrow> string \<Rightarrow> handler \<Rightarrow> handler" where
  "send_header keyword val h =
     (let h1 = (if request_version h \<noteq> ''HTTP/0.9''
                then h\<lparr>headers_buffer := headers_buffer h @ [Header keyword val]\<rparr>
                else h)
      in if lower keyword = ''connection''
         then (if lower val = ''close'' then h1\<lparr>close_connection := True\<rparr>
               else if lower val = ''keep-alive'' then h1\<lparr>close_connection := False\<rparr>
               else h1)
         else h1)"

definition flush_headers :: "handler \<Rightarrow> handler" where
  "flush_headers h = h\<lparr>wfile := wfile h @ headers_buffer h, headers_buffer := []\<rparr>"

text \<open>The inherited \<^verbatim>\<open>end_headers\<close>, the one \<open>GameHandler.end_headers\<close> calls last.\<close>

definition base_end_headers :: "handler \<Rightarrow> handler" where
  "base_end_headers h =
     (if request_version h \<noteq> ''HTTP/0.9''
      then flush_headers (h\<lparr>headers_buffer := headers_buffer h @ [Blank_Line]\<rparr>)
      else h)"

definition send_response :: "library \<Rightarrow> nat \<Rightarrow> string option \<Rightarrow> handler \<Rightarrow> handler" where
  "send_response lib code message h =
     send_header ''Date'' (date_time_string lib None)
       (send_header ''Server'' (version_string lib)
         (send_response_only lib code message h))"

definition send_error ::
  "library \<Rightarrow> (handler \<Rightarrow> handler) \<Rightarrow> nat \<Rightarrow> string option \<Rightarrow> string option \<Rightarrow> handler \<Rightarrow> handler" where
  "send_error lib eh code message explain h =
     (let short_long = (case responses lib code of Some r \<Rightarrow> r | None \<Rightarrow> (''???'', ''???''));
          message = (case message of None \<Rightarrow> fst short_long | Some m \<Rightarrow> m);
          explain = (case explain of None \<Rightarrow> snd short_long | Some e \<Rightarrow> e);
          h1 = send_header ''Connection'' ''close'' (send_response lib code (Some message) h);
          with_body = (200 \<le> code \<and> code \<notin> {204, 205, 304});
          body = error_message_format code (html_escape message) (html_escape explain);
          h2 = (if with_body
                then send_header ''Content-Length'' (str (length body))
                       (send_header ''Content-Type'' error_content_type h1)
                else h1);
          h3 = eh h2
      in if command h3 \<noteq> Some ''HEAD'' \<and> with_body \<and> body \<noteq> []
         then h3\<lparr>wfile := wfile h3 @ [Body body]\<rparr>
         else h3)"

subsection \<open>SimpleHTTPRequestHandler\<close>

definition extensions_map :: "string \<rightharpoonup> string" where
  "extensions_map =
     [''.gz'' \<mapsto> ''application/gzip'', ''.Z'' \<mapsto> ''application/octet-stream'',
      ''.bz2'' \<mapsto> ''application/x-bzip2'', ''.xz'' \<mapsto> ''application/x-xz'']"

definition guess_type :: "library \<Rightarrow> (string \<rightharpoonup> string) \<Rightarrow> string \<Rightarrow> string" where
  "guess_type lib tm p =
     (let ext = snd (splitext p)
      in case extensions_map ext of
           Some t \<Rightarrow> t
         | None \<Rightarrow>
             (case extensions_map (lower ext) of
                Some t \<Rightarrow> t
              | None \<Rightarrow>
                  (case mimetypes_guess_type lib tm p of
                     Some guess \<Rightarrow> if guess \<noteq> [] then guess else ''application/octet-stream''
                   | None \<Rightarrow> ''application/octet-stream'')))"

text \<open>
  A request header by its name, without regard to the case of letters, as
  \<^verbatim>\<open>self.headers\<close> finds it.
\<close>

definition get_header :: "handler \<Rightarrow> string \<Rightarrow> string option" where
  "get_header h name = map_of (map (\<lambda>(k, v). (lower k, v)) (headers h)) (lower name)"

text \<open>The test of \<^verbatim>\<open>send_head\<close> that answers a conditional request with 304.\<close>

definition not_modified :: "library \<Rightarrow> handler \<Rightarrow> file_obj \<Rightarrow> bool" where
  "not_modified lib h f =
     (case get_header h ''If-Modified-Since'' of
        None \<Rightarrow> False
      | Some ims \<Rightarrow> get_header h ''If-None-Match'' = None \<and> not_older lib ims (st_mtime f))"

definition list_directory ::
  "library \<Rightarrow> (handler \<Rightarrow> handler) \<Rightarrow> string \<Rightarrow> handler \<Rightarrow> handler \<times> string option" where
  "list_directory lib eh p h =
     (case listdir lib p of
        None \<Rightarrow> (send_error lib eh 404 (Some ''No permission to list directory'') None h, None)
      | Some names \<Rightarrow>
          (let encoded = listing_page lib (path h) p names
           in (eh (send_header ''Content-Length'' (str (length encoded))
                    (send_header ''Content-type'' (''text/html; charset='' @ getfilesystemencoding lib)
                      (send_response lib 200 None h))),
               Some encoded)))"

text \<open>
  \<^verbatim>\<open>send_head\<close> from the line \<^verbatim>\<open>ctype = self.guess_type(path)\<close> on: \<open>p\<close> is the file to
  send. The result is the handler and, when a body is to follow, the bytes of the file.
\<close>

definition send_head_file ::
  "library \<Rightarrow> (string \<rightharpoonup> string) \<Rightarrow> (handler \<Rightarrow> handler) \<Rightarrow> string \<Rightarrow> handler \<Rightarrow> handler \<times> string option" where
  "send_head_file lib tm eh p h =
     (let ctype = guess_type lib tm p
      in if endswith p ''/'' then (send_error lib eh 404 (Some ''File not found'') None h, None)
         else
           (case open_rb lib p of
              None \<Rightarrow> (send_error lib eh 404 (Some ''File not found'') None h, None)
            | Some f \<Rightarrow>
                if not_modified lib h f then (eh (send_response lib 304 None h), None)
                else
                  (eh (send_header ''Last-Modified'' (date_time_string lib (Some (st_mtime f)))
                        (send_header ''Content-Length'' (str (st_size f))
                          (send_header ''Content-type'' ctype
                            (send_response lib 200 None h)))),
                   Some (data f))))"

definition send_head ::
  "library \<Rightarrow> (string \<rightharpoonup> string) \<Rightarrow> (handler \<Rightarrow> handler) \<Rightarrow> handler \<Rightarrow> handler \<times> string option" where
  "send_head lib tm eh h =
     (let p = translate_path lib (directory h) (path h)
      in if isdir lib p
         then (case urlsplit lib (path h) of (scheme, netloc, upath, query, fragment) \<Rightarrow>
                 if \<not> endswith upath ''/''
                 then (eh (send_header ''Content-Length'' ''0''
                            (send_header ''Location''
                               (urlunsplit lib (scheme, netloc, upath @ ''/'', query, fragment))
                              (send_response lib 301 None h))),
                       None)
                 else if isfile lib (join p ''index.html'')
                   then send_head_file lib tm eh (join p ''index.html'') h
                 else if isfile lib (join p ''index.htm'')
                   then send_head_file lib tm eh (join p ''index.htm'') h
                 else list_directory lib eh p h)
         else send_head_file lib tm eh p h)"

text \<open>The inherited \<^verbatim>\<open>do_GET\<close> and \<^verbatim>\<open>do_HEAD\<close>.\<close>

definition base_do_GET ::
  "library \<Rightarrow> (string \<rightharpoonup> string) \<Rightarrow> (handler \<Rightarrow> handler) \<Rightarrow> handler \<Rightarrow> handler" where
  "base_do_GET lib tm eh h =
     (case send_head lib tm eh h of
        (h1, None) \<Rightarrow> h1
      | (h1, Some bytes) \<Rightarrow> h1\<lparr>wfile := wfile h1 @ [Body bytes]\<rparr>)"

definition base_do_HEAD ::
  "library \<Rightarrow> (string \<rightharpoonup> string) \<Rightarrow> (handler \<Rightarrow> handler) \<Rightarrow> handler \<Rightarrow> handler" where
  "base_do_HEAD lib tm eh h = fst (send_head lib tm eh h)"

section \<open>GameHandler (main.py, lines 26-42)\<close>

text \<open>
  \<^verbatim>\<open>GameHandler.__init__\<close>, lines 27-28: the arguments go to the inherited constructor
  unchanged, with \<^verbatim>\<open>directory=DIRECTORY\<close>.
\<close>

definition init :: "string \<Rightarrow> (string \<Rightarrow> 'a \<Rightarrow> 'r) \<Rightarrow> 'a \<Rightarrow> 'r" where
  "init dir super_init args = super_init dir args"

text \<open>
  \<^verbatim>\<open>GameHandler.end_headers\<close>, lines 30-36; \<open>super_end_headers\<close> is the inherited method
  and \<open>send_header\<close> the library's, which the class does not override.
\<close>

definition end_headers :: "(handler \<Rightarrow> handler) \<Rightarrow> handler \<Rightarrow> handler" where
  "end_headers super_end_headers h =
     super_end_headers
       (send_header ''Expires'' ''0''
         (send_header ''Pragma'' ''no-cache''
           (send_header ''Cache-Control'' ''no-store, no-cache, must-revalidate, max-age=0''
             (send_header ''Access-Control-Allow-Origin'' ''*'' h))))"

text \<open>
  \<^verbatim>\<open>GameHandler.do_GET\<close>, lines 38-42; \<open>super_do_GET\<close> is the inherited method, which
  reads \<^verbatim>\<open>self.path\<close> and produces the response.
\<close>

definition do_GET :: "(handler \<Rightarrow> 'r) \<Rightarrow> handler \<Rightarrow> 'r" where
  "do_GET super_do_GET h =
     super_do_GET (if path h = ''/'' then h\<lparr>path := ''/index.html''\<rparr> else h)"

text \<open>The class defines no \<^verbatim>\<open>do_HEAD\<close>: the inherited method answers a HEAD request.\<close>

definition do_HEAD :: "(handler \<Rightarrow> 'r) \<Rightarrow> handler \<Rightarrow> 'r" where
  "do_HEAD super_do_HEAD h = super_do_HEAD h"

text \<open>
  The library calls the method named after the request's command. Of the commands the
  inherited handler implements, these are the two.
\<close>

datatype command = GET | HEAD

definition handle_command :: "(handler \<Rightarrow> 'r) \<Rightarrow> (handler \<Rightarrow> 'r) \<Rightarrow> command \<Rightarrow> handler \<Rightarrow> 'r" where
  "handle_command super_do_GET super_do_HEAD c h =
     (case c of GET \<Rightarrow> do_GET super_do_GET h | HEAD \<Rightarrow> do_HEAD super_do_HEAD h)"

text \<open>
  A request handled by \<open>GameHandler\<close>: the method of the request's command runs, with the
  library's methods as the inherited ones and the class's own \<open>end_headers\<close> wherever the
  library calls \<^verbatim>\<open>self.end_headers()\<close>. \<open>tm\<close> is the table of MIME types of the process.
\<close>

definition handle_request :: "library \<Rightarrow> (string \<rightharpoonup> string) \<Rightarrow> command \<Rightarrow> handler \<Rightarrow> handler" where
  "handle_request lib tm c h =
     handle_command
       (base_do_GET lib tm (end_headers base_end_headers))
       (base_do_HEAD lib tm (end_headers base_end_headers)) c h"

text \<open>The four header lines of \<open>end_headers\<close>, in the order they are sent.\<close>

definition fixed_headers :: "line list" where
  "fixed_headers =
     [Header ''Access-Control-Allow-Origin'' ''*'',
      Header ''Cache-Control'' ''no-store, no-cache, must-revalidate, max-age=0'',
      Header ''Pragma'' ''no-cache'',
      Header ''Expires'' ''0'']"

section \<open>A platform for the examples\<close>

text \<open>
  A small file system under \<^verbatim>\<open>/srv/game\<close>: the files \<^verbatim>\<open>index.html\<close> and \<^verbatim>\<open>app.tsx\<close>, and
  the directory \<^verbatim>\<open>assets\<close> with one entry and no index file. Targets are plain paths,
  so translating one is appending it to the directory.
\<close>

definition example_library :: library where
  "example_library =
     \<lparr>translate_path = (\<lambda>dir target. dir @ target),
      isdir = (\<lambda>p. p \<in> {''/srv/game'', ''/srv/game/'', ''/srv/game/assets'', ''/srv/game/assets/''}),
      isfile = (\<lambda>p. p \<in> {''/srv/game/index.html'', ''/srv/game/app.tsx''}),
      open_rb =
        [''/srv/game/index.html'' \<mapsto> \<lparr>data = ''<html></html>'', st_size = 13, st_mtime = 0\<rparr>,
         ''/srv/game/app.tsx'' \<mapsto> \<lparr>data = ''const App = 1;'', st_size = 14, st_mtime = 0\<rparr>],
      listdir = [''/srv/game/assets/'' \<mapsto> [''logo.png'']],
      urlsplit = (\<lambda>u. ([], [], u, [], [])),
      urlunsplit = (\<lambda>(scheme, netloc, upath, query, fragment). upath),
      urlparse = (\<lambda>u. ([], [], u, [], [], [])),
      not_older = (\<lambda>ims mtime. True),
      responses =
        [200 \<mapsto> (''OK'', ''Request fulfilled, document follows''),
         301 \<mapsto> (''Moved Permanently'', ''Object moved permanently -- see URI list''),
         304 \<mapsto> (''Not Modified'', ''Document has not changed since given time''),
         400 \<mapsto> (''Bad Request'', ''Bad request syntax or unsupported method''),
         404 \<mapsto> (''Not Found'', ''Nothing matches the given URI''),
         505 \<mapsto> (''HTTP Version Not Supported'', ''Cannot fulfill request'')],
      version_string = ''SimpleHTTP/0.6 Python/3.11.10'',
      date_time_string = (\<lambda>t. ''Thu, 01 Jan 1970 00:00:00 GMT''),
      listing_page = (\<lambda>target p names. ''<ul><li>'' @ concat names @ ''</li></ul>''),
      getfilesystemencoding = ''utf-8''\<rparr>"

text \<open>
  The state of a handler when the method of the command is called, for a request line
  with the given command, target and version and the given request headers.
\<close>

definition example_request :: "string \<Rightarrow> string \<Rightarrow> string \<Rightarrow> (string \<times> string) list \<Rightarrow> handler" where
  "example_request c target version hs =
     \<lparr>command = Some c, path = target, request_version = version, headers = hs,
      directory = ''/srv/game'', close_connection = True, headers_buffer = [], wfile = []\<rparr>"

text \<open>The table of MIME types after the top level of the module, over an empty platform table.\<close>

definition example_types :: "string \<rightharpoonup> string" where
  "example_types =
     types_map (run Map.empty \<lparr>types_map = Map.empty, cwd = ''/'', stdout = []\<rparr> (fst module_level))"

text \<open>Whether an event changes the working directory.\<close>

fun is_chdir :: "event \<Rightarrow> bool" where
  "is_chdir (Chdir d) = True"
| "is_chdir _ = False"

section \<open>The shape of a run\<close>

lemma str_PORT: "str PORT = ''8000''"
  by (simp add: PORT_def str.simps)

lemma module_level_eq:
  "module_level =
     ([Mime_Init, Add_Type ''application/javascript'' ''.ts'',
       Add_Type ''application/javascript'' ''.tsx'', Add_Type ''application/json'' ''.json''],
      Returns)"
  by (simp add: module_level_def seq_def stmt_def)

lemma banner_eq:
  "banner d =
     ([Chdir d, Print Banner_Top, Print Banner_Title, Print (Banner_Directory d),
       Print (Banner_Address ''http://localhost:8000''), Print Banner_Bottom], Returns)"
  by (simp add: banner_def seq_def stmt_def str_PORT)

lemma open_browser_eq: "open_browser w = ([Browser_Open ''http://localhost:8000''], Returns)"
  by (cases "browser w") (simp_all add: open_browser_def except_pass_def call_def str_PORT)

lemma serve_block_bind_raises:
  "bind w = Some x \<Longrightarrow> serve_block w = ([Server_Create [] 8000], Raises x)"
  by (simp add: serve_block_def seq_def call_def PORT_def)

lemma serve_block_bound:
  "bind w = None \<Longrightarrow>
   serve_block w =
     ([Server_Create [] 8000, Print Msg_Started, Print Msg_Blank_Page_Hint, Print Msg_Stop_Hint,
       Serve_Forever] @ (if serve w = Diverges then [] else [Server_Close]), serve w)"
  by (cases "serve w") (simp_all add: serve_block_def seq_def call_def stmt_def PORT_def)

lemma serve_block_browser: "serve_block (w\<lparr>browser := b\<rparr>) = serve_block w"
  by (simp add: serve_block_def)

lemma except_clauses_Exception:
  "except_clauses (evs, Raises (Exception e)) =
     (evs @ [Print (Msg_Start_Failed e), Print Msg_Port_Hint], Returns)"
  by (simp add: except_clauses_def seq_def stmt_def)

lemma except_clauses_KeyboardInterrupt:
  "except_clauses (evs, Raises KeyboardInterrupt) = (evs @ [Print Msg_Shutdown], Returns)"
  by (simp add: except_clauses_def seq_def stmt_def)

lemma fst_except_clauses:
  "fst (except_clauses a) =
     fst a @ (case snd a of
                Raises KeyboardInterrupt \<Rightarrow> [Print Msg_Shutdown]
              | Raises (Exception e) \<Rightarrow> [Print (Msg_Start_Failed e), Print Msg_Port_Hint]
              | _ \<Rightarrow> [])"
  by (simp add: except_clauses_def seq_def stmt_def split: outcome.splits exn.splits)

lemma start_game_server_eq:
  "start_game_server d w =
     (fst (banner d) @ [Browser_Open ''http://localhost:8000''] @
        fst (except_clauses (serve_block w)),
      snd (except_clauses (serve_block w)))"
  by (simp add: start_game_server_def banner_eq open_browser_eq seq_def)

lemma program_eq:
  "program dirname abspath file w =
     (fst module_level @ fst (start_game_server (DIRECTORY dirname abspath file) w),
      snd (start_game_server (DIRECTORY dirname abspath file) w))"
  by (simp add: program_def module_level_eq seq_def Let_def)

lemma serve_forever_entered:
  "(Serve_Forever \<in> set (fst (except_clauses (serve_block w)))) = (bind w = None)"
proof (cases "bind w")
  case None
  then show ?thesis
    by (simp add: fst_except_clauses serve_block_bound)
next
  case (Some x)
  then show ?thesis
    by (simp add: fst_except_clauses serve_block_bind_raises split: exn.splits)
qed

lemma run_append: "run p s (a @ b) = run p (run p s a) b"
  by (simp add: run_def)

lemma run_Cons: "run p s (e # evs) = run p (exec p s e) evs"
  by (simp add: run_def)

lemma types_map_tail:
  "types_map (run p s
     (case r of
        Raises KeyboardInterrupt \<Rightarrow> [Print Msg_Shutdown]
      | Raises (Exception e) \<Rightarrow> [Print (Msg_Start_Failed e), Print Msg_Port_Hint]
      | _ \<Rightarrow> [])) = types_map s"
  by (simp add: run_def split: outcome.split exn.split)

lemma types_map_serve_block: "types_map (run p s (fst (serve_block w))) = types_map s"
proof (cases "bind w")
  case None
  then show ?thesis by (simp add: serve_block_bound run_def)
next
  case (Some x)
  then show ?thesis by (simp add: serve_block_bind_raises run_def)
qed

lemma run_keeps_types_map:
  "types_map (run p s (fst (start_game_server d w))) = types_map s"
proof -
  have "types_map (run p s (fst (start_game_server d w))) =
        types_map (run p s (fst (banner d) @ [Browser_Open ''http://localhost:8000'']))"
    by (simp only: start_game_server_eq fst_conv fst_except_clauses run_append
        types_map_tail types_map_serve_block)
  then show ?thesis
    by (simp add: banner_eq run_def)
qed

lemma cwd_run_no_chdir: "list_all (\<lambda>e. \<not> is_chdir e) evs \<Longrightarrow> cwd (run p s evs) = cwd s"
proof (induction evs arbitrary: s)
  case Nil
  then show ?case by (simp add: run_def)
next
  case (Cons e evs)
  have "cwd (exec p s e) = cwd s"
    using Cons.prems by (cases e) simp_all
  moreover have "cwd (run p (exec p s e) evs) = cwd (exec p s e)"
    using Cons by simp
  ultimately show ?case by (simp add: run_def)
qed

lemma tail_no_chdir:
  "list_all (\<lambda>e. \<not> is_chdir e)
     (case r of
        Raises KeyboardInterrupt \<Rightarrow> [Print Msg_Shutdown]
      | Raises (Exception e) \<Rightarrow> [Print (Msg_Start_Failed e), Print Msg_Port_Hint]
      | _ \<Rightarrow> [])"
  by (simp split: outcome.split exn.split)

lemma serve_block_no_chdir: "list_all (\<lambda>e. \<not> is_chdir e) (fst (serve_block w))"
proof (cases "bind w")
  case None
  then show ?thesis by (simp add: serve_block_bound)
next
  case (Some x)
  then show ?thesis by (simp add: serve_block_bind_raises)
qed

lemma serve_part_no_chdir:
  "list_all (\<lambda>e. \<not> is_chdir e) (fst (except_clauses (serve_block w)))"
  by (simp only: fst_except_clauses list_all_append serve_block_no_chdir tail_no_chdir simp_thms)

lemma filter_none: "list_all (\<lambda>e. \<not> P e) xs \<Longrightarrow> filter P xs = []"
  by (simp add: list_all_iff)

lemma list_all_take: "list_all P xs \<Longrightarrow> list_all P (take n xs)"
  by (auto simp add: list_all_iff dest: in_set_takeD)

lemma module_level_no_chdir: "list_all (\<lambda>e. \<not> is_chdir e) (fst module_level)"
  by (simp add: module_level_eq)

lemma chdir_once:
  "filter is_chdir (fst (program dirname abspath file w)) = [Chdir (DIRECTORY dirname abspath file)]"
  by (simp add: program_eq start_game_server_eq module_level_eq banner_eq
      filter_none [OF serve_part_no_chdir])

lemma cwd_prefix:
  "cwd (run p s (take n (fst (program dirname abspath file w)))) =
     (if n < 5 then cwd s else DIRECTORY dirname abspath file)"
proof (cases "n < 5")
  case True
  let ?d = "DIRECTORY dirname abspath file"
  have len: "length (fst module_level) = 4"
    by (simp add: module_level_eq)
  have "take n (fst (program dirname abspath file w)) =
          take n (fst module_level) @ take (n - 4) (fst (start_game_server ?d w))"
    by (simp add: program_eq len)
  moreover have "take (n - 4) (fst (start_game_server ?d w)) = []"
    using True by (cases "n - 4") (simp_all add: start_game_server_eq banner_eq)
  ultimately have "take n (fst (program dirname abspath file w)) = take n (fst module_level)"
    by simp
  then show ?thesis
    using True by (simp add: cwd_run_no_chdir list_all_take module_level_no_chdir)
next
  case False
  let ?d = "DIRECTORY dirname abspath file"
  define k where "k = n - 5"
  have n: "n = Suc (Suc (Suc (Suc (Suc k))))"
    using False by (simp add: k_def)
  have tk: "take n (fst (program dirname abspath file w)) =
          fst module_level @ Chdir ?d # take k (tl (fst (start_game_server ?d w)))"
    by (simp add: n program_eq module_level_eq start_game_server_eq banner_eq)
  have rest: "list_all (\<lambda>e. \<not> is_chdir e) (tl (fst (start_game_server ?d w)))"
    using serve_part_no_chdir [of w]
    by (simp add: start_game_server_eq banner_eq)
  have "cwd (run p s (take n (fst (program dirname abspath file w)))) =
      cwd (run p (exec p (run p s (fst module_level)) (Chdir ?d))
             (take k (tl (fst (start_game_server ?d w)))))"
    by (simp only: tk run_append run_Cons)
  also have "\<dots> = cwd (exec p (run p s (fst module_level)) (Chdir ?d))"
    by (rule cwd_run_no_chdir) (rule list_all_take, rule rest)
  also have "\<dots> = ?d"
    by simp
  finally show ?thesis
    using False by simp
qed

lemma posix_dirname_of_file:
  assumes "CHR ''/'' \<notin> set name" and "dir \<noteq> []" and "last dir \<noteq> CHR ''/''"
  shows "posix_dirname (dir @ ''/'' @ name) = dir"
proof -
  obtain ys y where dir: "dir = ys @ [y]" and y: "y \<noteq> CHR ''/''"
    using assms(2,3) by (cases dir rule: rev_cases) auto
  have a: "dropWhile (\<lambda>c. c \<noteq> CHR ''/'') (rev name @ CHR ''/'' # rev dir) = CHR ''/'' # rev dir"
    using assms(1) by (subst dropWhile_append2) auto
  show ?thesis
    using a y by (simp add: posix_dirname_def rstrip_slash_def Let_def dir)
qed

section \<open>The library's methods on a handler\<close>

lemma send_header_keeps:
  "request_version (send_header k v h) = request_version h"
  "command (send_header k v h) = command h"
  "path (send_header k v h) = path h"
  "directory (send_header k v h) = directory h"
  "headers (send_header k v h) = headers h"
  "wfile (send_header k v h) = wfile h"
  by (simp_all add: send_header_def Let_def)

lemma send_header_buffer:
  "request_version h \<noteq> ''HTTP/0.9'' \<Longrightarrow>
     headers_buffer (send_header k v h) = headers_buffer h @ [Header k v]"
  by (simp add: send_header_def Let_def)

lemma send_response_only_keeps:
  "request_version (send_response_only lib c m h) = request_version h"
  "command (send_response_only lib c m h) = command h"
  "path (send_response_only lib c m h) = path h"
  "directory (send_response_only lib c m h) = directory h"
  "headers (send_response_only lib c m h) = headers h"
  "wfile (send_response_only lib c m h) = wfile h"
  by (simp_all add: send_response_only_def Let_def)

lemma send_response_keeps:
  "request_version (send_response lib c m h) = request_version h"
  "command (send_response lib c m h) = command h"
  "path (send_response lib c m h) = path h"
  "directory (send_response lib c m h) = directory h"
  "headers (send_response lib c m h) = headers h"
  "wfile (send_response lib c m h) = wfile h"
  by (simp_all add: send_response_def send_header_keeps send_response_only_keeps)

lemma send_response_buffer:
  "request_version h \<noteq> ''HTTP/0.9'' \<Longrightarrow>
     headers_buffer (send_response lib c m h) =
       headers_buffer h @
         [Status_Line ''HTTP/1.0'' c
            (case m of None \<Rightarrow> (case responses lib c of Some r \<Rightarrow> fst r | None \<Rightarrow> []) | Some x \<Rightarrow> x),
          Header ''Server'' (version_string lib),
          Header ''Date'' (date_time_string lib None)]"
  by (simp add: send_response_def send_header_buffer send_header_keeps send_response_only_keeps)
     (simp add: send_response_only_def Let_def protocol_version_def)

lemma end_headers_keeps:
  "request_version (end_headers base_end_headers h) = request_version h"
  "command (end_headers base_end_headers h) = command h"
  "path (end_headers base_end_headers h) = path h"
  "directory (end_headers base_end_headers h) = directory h"
  "headers (end_headers base_end_headers h) = headers h"
  by (simp_all add: end_headers_def base_end_headers_def flush_headers_def send_header_keeps)

lemma end_headers_wfile:
  "request_version h \<noteq> ''HTTP/0.9'' \<Longrightarrow>
     wfile (end_headers base_end_headers h) = wfile h @ headers_buffer h @ fixed_headers @ [Blank_Line]"
  by (simp add: end_headers_def base_end_headers_def flush_headers_def send_header_keeps
      send_header_buffer fixed_headers_def)

lemma end_headers_old:
  "request_version h = ''HTTP/0.9'' \<Longrightarrow> wfile (end_headers base_end_headers h) = wfile h"
  by (simp add: end_headers_def base_end_headers_def send_header_keeps)




lemma geh_fixed:
  "request_version x \<noteq> ''HTTP/0.9'' \<Longrightarrow>
     set fixed_headers \<subseteq> set (wfile (end_headers base_end_headers x))"
  by (auto simp add: end_headers_wfile)

lemma geh_fixed_more:
  "request_version x \<noteq> ''HTTP/0.9'' \<Longrightarrow>
     set fixed_headers \<subseteq> insert b (set (wfile (end_headers base_end_headers x)))"
  using geh_fixed [of x] by blast

lemma send_error_has_fixed:
  assumes "request_version h \<noteq> ''HTTP/0.9''"
  shows "set fixed_headers \<subseteq>
    set (wfile (send_error lib (end_headers base_end_headers) code message explain h))"
  using assms
  by (simp add: send_error_def Let_def geh_fixed geh_fixed_more send_header_keeps
      send_response_keeps)

lemma list_directory_has_fixed:
  assumes "request_version h \<noteq> ''HTTP/0.9''"
  shows "set fixed_headers \<subseteq>
    set (wfile (fst (list_directory lib (end_headers base_end_headers) p h)))"
  using assms
  by (simp add: list_directory_def Let_def geh_fixed send_error_has_fixed send_header_keeps
      send_response_keeps split: option.split)

lemma send_head_file_has_fixed:
  assumes "request_version h \<noteq> ''HTTP/0.9''"
  shows "set fixed_headers \<subseteq>
    set (wfile (fst (send_head_file lib tm (end_headers base_end_headers) p h)))"
  using assms
  by (simp add: send_head_file_def Let_def geh_fixed send_error_has_fixed send_header_keeps
      send_response_keeps split: option.split)

lemma send_head_has_fixed:
  assumes "request_version h \<noteq> ''HTTP/0.9''"
  shows "set fixed_headers \<subseteq>
    set (wfile (fst (send_head lib tm (end_headers base_end_headers) h)))"
  using assms
  by (simp add: send_head_def Let_def geh_fixed send_head_file_has_fixed list_directory_has_fixed
      send_header_keeps send_response_keeps split: prod.split)

lemma base_do_GET_wfile:
  "set (wfile (fst (send_head lib tm eh h))) \<subseteq> set (wfile (base_do_GET lib tm eh h))"
  by (auto simp add: base_do_GET_def split: prod.split option.split)

lemma handle_request_has_fixed:
  assumes "request_version h \<noteq> ''HTTP/0.9''"
  shows "set fixed_headers \<subseteq> set (wfile (handle_request lib tm c h))"
proof (cases c)
  case GET
  let ?h = "if path h = ''/'' then h\<lparr>path := ''/index.html''\<rparr> else h"
  have "request_version ?h \<noteq> ''HTTP/0.9''"
    using assms by simp
  then have "set fixed_headers \<subseteq> set (wfile (fst (send_head lib tm (end_headers base_end_headers) ?h)))"
    by (rule send_head_has_fixed)
  also have "\<dots> \<subseteq> set (wfile (base_do_GET lib tm (end_headers base_end_headers) ?h))"
    by (rule base_do_GET_wfile)
  finally show ?thesis
    using GET by (simp add: handle_request_def handle_command_def do_GET_def)
next
  case HEAD
  then show ?thesis
    using send_head_has_fixed [OF assms, of lib tm]
    by (simp add: handle_request_def handle_command_def do_HEAD_def base_do_HEAD_def)
qed


lemma fst_module_level:
  "fst module_level =
     [Mime_Init, Add_Type ''application/javascript'' ''.ts'',
       Add_Type ''application/javascript'' ''.tsx'', Add_Type ''application/json'' ''.json'']"
  by (simp add: module_level_def seq_def stmt_def)

lemma registered_types:
  "types_map (run platform s (fst module_level)) =
     platform(''.ts'' \<mapsto> ''application/javascript'',
              ''.tsx'' \<mapsto> ''application/javascript'',
              ''.json'' \<mapsto> ''application/json'')"
  by (simp add: run_def fst_module_level)

lemma splitext_ext_not_slash: "snd (splitext p) \<noteq> [] \<Longrightarrow> \<not> endswith p ''/''"
  by (cases "rev p") (auto simp add: splitext_def endswith_def Let_def split: if_splits)

lemma typescript_not_in_tables:
  assumes "lower e \<in> {''.ts'', ''.tsx''}"
  shows "extensions_map e = None" and "extensions_map (lower e) = None"
    and "suffix_map (lower e) = None" and "encodings_map e = None"
proof -
  have a: "lower ''.gz'' = ''.gz''" "lower ''.Z'' = ''.z''" "lower ''.bz2'' = ''.bz2''"
    "lower ''.xz'' = ''.xz''" "lower ''.br'' = ''.br''"
    by (simp_all add: lower_def lower_char_def)
  have "e \<notin> {''.gz'', ''.Z'', ''.bz2'', ''.xz'', ''.br''}"
    using assms a by auto
  then show "extensions_map e = None" and "encodings_map e = None"
    by (simp_all add: extensions_map_def encodings_map_def)
  show "extensions_map (lower e) = None" and "suffix_map (lower e) = None"
    using assms by (auto simp add: extensions_map_def suffix_map_def)
qed

lemma mimetypes_guess_type_typescript:
  assumes "lower (snd (splitext p)) \<in> {''.ts'', ''.tsx''}"
    and "length (fst (urlparse lib p)) \<le> 1"
  shows "mimetypes_guess_type lib tm p = tm (lower (snd (splitext p)))"
proof -
  obtain scheme netloc upath params query fragment
    where u: "urlparse lib p = (scheme, netloc, upath, params, query, fragment)"
    by (cases "urlparse lib p") auto
  with assms(2) have short: "\<not> 1 < length scheme"
    by simp
  have loop: "suffix_loop (fst (splitext p)) (snd (splitext p)) = (fst (splitext p), snd (splitext p))"
    by (simp add: suffix_loop.simps [of "fst (splitext p)"] typescript_not_in_tables(3) [OF assms(1)])
  show ?thesis
    using short
    by (simp add: mimetypes_guess_type_def u Let_def case_prod_beta loop
        typescript_not_in_tables(4) [OF assms(1)])
qed

lemma guess_type_typescript:
  assumes "lower (snd (splitext p)) \<in> {''.ts'', ''.tsx''}"
    and "length (fst (urlparse lib p)) \<le> 1"
  shows "guess_type lib (types_map (run platform s (fst module_level))) p = ''application/javascript''"
proof -
  have "types_map (run platform s (fst module_level)) (lower (snd (splitext p))) =
          Some ''application/javascript''"
    using assms(1) by (auto simp add: registered_types)
  then show ?thesis
    by (simp add: guess_type_def Let_def typescript_not_in_tables(1,2) [OF assms(1)]
        mimetypes_guess_type_typescript [OF assms])
qed

lemma send_head_file_ok:
  assumes "request_version h \<noteq> ''HTTP/0.9''"
    and "\<not> endswith p ''/''" and "open_rb lib p = Some f" and "\<not> not_modified lib h f"
  shows "send_head_file lib tm (end_headers base_end_headers) p h =
     (end_headers base_end_headers
        (send_header ''Last-Modified'' (date_time_string lib (Some (st_mtime f)))
          (send_header ''Content-Length'' (str (st_size f))
            (send_header ''Content-type'' (guess_type lib tm p)
              (send_response lib 200 None h)))),
      Some (data f))"
  using assms by (simp add: send_head_file_def Let_def)

lemma ok_wfile:
  assumes "request_version h \<noteq> ''HTTP/0.9''"
  shows "wfile (end_headers base_end_headers
        (send_header k3 v3 (send_header k2 v2 (send_header k1 v1 (send_response lib 200 None h))))) =
     wfile h @ headers_buffer h @
       [Status_Line ''HTTP/1.0'' 200 (case responses lib 200 of Some r \<Rightarrow> fst r | None \<Rightarrow> []),
        Header ''Server'' (version_string lib),
        Header ''Date'' (date_time_string lib None),
        Header k1 v1, Header k2 v2, Header k3 v3] @ fixed_headers @ [Blank_Line]"
  using assms
  by (simp add: end_headers_wfile send_header_keeps send_header_buffer send_response_keeps
      send_response_buffer)

lemma get_header_path: "get_header (h\<lparr>path := x\<rparr>) name = get_header h name"
  by (simp add: get_header_def)

lemma not_modified_path: "not_modified lib (h\<lparr>path := x\<rparr>) f = not_modified lib h f"
  by (simp add: not_modified_def get_header_path split: option.split)

section \<open>Response headers\<close>

text \<open>
  Claim C1, as amended. Every response to a request whose version the library has read as
  HTTP/1.0 or later carries the four fixed headers, whatever the path and the status code.
  For such a handler, \<open>end_headers\<close> writes what was buffered, then
  \<^verbatim>\<open>Access-Control-Allow-Origin: *\<close>, the \<^verbatim>\<open>Cache-Control\<close> line, \<^verbatim>\<open>Pragma: no-cache\<close> and
  \<^verbatim>\<open>Expires: 0\<close>, then the blank line, and leaves the path alone; every error reply of
  \<^verbatim>\<open>send_error\<close>, for any code, and every answer to a GET or a HEAD (file, not modified,
  redirect, listing, not found) contains the four lines.
\<close>

theorem end_headers_adds_fixed_headers:
  assumes "request_version h \<noteq> ''HTTP/0.9''"
  shows "wfile (end_headers base_end_headers h) =
           wfile h @ headers_buffer h @
             [Header ''Access-Control-Allow-Origin'' ''*'',
              Header ''Cache-Control'' ''no-store, no-cache, must-revalidate, max-age=0'',
              Header ''Pragma'' ''no-cache'',
              Header ''Expires'' ''0'',
              Blank_Line]
         \<and> path (end_headers base_end_headers h) = path h
         \<and> set fixed_headers \<subseteq>
             set (wfile (send_error lib (end_headers base_end_headers) code message explain h))
         \<and> set fixed_headers \<subseteq> set (wfile (handle_request lib tm c h))"
  using assms
  by (simp add: end_headers_wfile end_headers_keeps send_error_has_fixed handle_request_has_fixed)
     (simp add: fixed_headers_def)

theorem end_headers_adds_fixed_headers_witness:
  "set fixed_headers \<subseteq>
     set (wfile (handle_request example_library example_types GET
                   (example_request ''GET'' ''/missing.png'' ''HTTP/1.1'' [])))"
proof -
  have "request_version (example_request ''GET'' ''/missing.png'' ''HTTP/1.1'' []) \<noteq> ''HTTP/0.9''"
    by (simp add: example_request_def)
  from end_headers_adds_fixed_headers [OF this, THEN conjunct2, THEN conjunct2, THEN conjunct2]
  show ?thesis .
qed

text \<open>
  The claim as it stands fails. Until the request line is parsed to the end a handler has
  the request version HTTP/0.9, and in that state the library buffers no status line and
  no header and writes no header block. The request line \<^verbatim>\<open>GET / HTTP/2.0\<close> is answered
  from that state: the reply to it (code 505) is the error page alone, and
  \<open>end_headers\<close> writes nothing.
\<close>

theorem early_error_reply_has_no_headers:
  "wfile (send_error example_library (end_headers base_end_headers) 505
            (Some ''Invalid HTTP version (2.0)'') None
            \<lparr>command = None, path = [], request_version = ''HTTP/0.9'', headers = [],
             directory = ''/srv/game'', close_connection = True,
             headers_buffer = [], wfile = []\<rparr>) =
     [Body (error_message_format 505 ''Invalid HTTP version (2.0)'' ''Cannot fulfill request'')]
   \<and> wfile (end_headers base_end_headers
            \<lparr>command = None, path = [], request_version = ''HTTP/0.9'', headers = [],
             directory = ''/srv/game'', close_connection = True,
             headers_buffer = [], wfile = []\<rparr>) = []"
proof -
  have ne: "error_message_format c m e \<noteq> []" for c m e
    by (simp add: error_message_format_def)
  have esc: "html_escape ''Invalid HTTP version (2.0)'' = ''Invalid HTTP version (2.0)''"
    "html_escape ''Cannot fulfill request'' = ''Cannot fulfill request''"
    by (simp_all add: html_escape_def)
  show ?thesis
    by (simp add: send_error_def Let_def end_headers_old end_headers_keeps send_header_keeps
        send_response_keeps ne esc example_library_def)
qed

section \<open>The root path\<close>

text \<open>
  Claim C2. A GET of \<^verbatim>\<open>/\<close> is served as a GET of \<^verbatim>\<open>/index.html\<close>: whatever the inherited
  method does, and whatever the rest of the handler's state, the two requests give the
  same result, the one the inherited method gives for \<^verbatim>\<open>/index.html\<close>.
\<close>

theorem root_served_as_index:
  "do_GET super_do_GET (h\<lparr>path := ''/''\<rparr>) = do_GET super_do_GET (h\<lparr>path := ''/index.html''\<rparr>)
   \<and> do_GET super_do_GET (h\<lparr>path := ''/''\<rparr>) = super_do_GET (h\<lparr>path := ''/index.html''\<rparr>)"
  by (simp add: do_GET_def)

section \<open>MIME types\<close>

text \<open>
  Claim C3, as amended. A GET or HEAD request with a version of HTTP/1.0 or later, for a
  file that can be opened and whose extension is \<^verbatim>\<open>.ts\<close> or \<^verbatim>\<open>.tsx\<close> in any mix of upper
  and lower case, is answered with status 200 and the header
  \<^verbatim>\<open>Content-type: application/javascript\<close>, whatever the platform's table of MIME types
  says, unless it is a conditional request answered with 304. The table is the one the
  top level of the module leaves, and the rest of the run does not change it. \<open>p\<close> is the
  file the target is translated to; it is a file path, in which \<^verbatim>\<open>urlparse\<close> finds no scheme
  of two letters or more.
\<close>

theorem typescript_served_as_javascript:
  assumes "request_version h \<noteq> ''HTTP/0.9''"
    and "p = translate_path lib (directory h)
               (if c = GET \<and> path h = ''/'' then ''/index.html'' else path h)"
    and "lower (snd (splitext p)) \<in> {''.ts'', ''.tsx''}"
    and "length (fst (urlparse lib p)) \<le> 1"
    and "\<not> isdir lib p"
    and "open_rb lib p = Some f"
    and "\<not> not_modified lib h f"
  shows "wfile (handle_request lib (types_map (run platform s (fst module_level))) c h) =
           wfile h @ headers_buffer h @
             [Status_Line ''HTTP/1.0'' 200 (case responses lib 200 of Some r \<Rightarrow> fst r | None \<Rightarrow> []),
              Header ''Server'' (version_string lib),
              Header ''Date'' (date_time_string lib None),
              Header ''Content-type'' ''application/javascript'',
              Header ''Content-Length'' (str (st_size f)),
              Header ''Last-Modified'' (date_time_string lib (Some (st_mtime f)))] @
             fixed_headers @ [Blank_Line] @ (if c = GET then [Body (data f)] else [])
         \<and> types_map (run platform s (fst (program dirname abspath file w))) =
             types_map (run platform s (fst module_level))"
proof -
  let ?tm = "types_map (run platform s (fst module_level))"
  define g where "g = (if c = GET \<and> path h = ''/'' then h\<lparr>path := ''/index.html''\<rparr> else h)"
  have v: "request_version g \<noteq> ''HTTP/0.9''"
    using assms(1) by (simp add: g_def)
  have p: "translate_path lib (directory g) (path g) = p"
    using assms(2) by (simp add: g_def)
  have nm: "\<not> not_modified lib g f"
    using assms(7) by (simp add: g_def not_modified_path)
  have ext: "snd (splitext p) \<noteq> []"
    using assms(3) by (auto simp add: lower_def)
  have head: "send_head lib ?tm (end_headers base_end_headers) g =
      (end_headers base_end_headers
        (send_header ''Last-Modified'' (date_time_string lib (Some (st_mtime f)))
          (send_header ''Content-Length'' (str (st_size f))
            (send_header ''Content-type'' ''application/javascript''
              (send_response lib 200 None g)))),
       Some (data f))"
    unfolding send_head_def p Let_def
    using assms(5)
    by (simp only: if_False send_head_file_ok [OF v splitext_ext_not_slash [OF ext] assms(6) nm]
        guess_type_typescript [OF assms(3,4)])
  have w: "wfile g = wfile h" "headers_buffer g = headers_buffer h"
    by (simp_all add: g_def)
  have "wfile (handle_request lib ?tm c h) =
           wfile h @ headers_buffer h @
             [Status_Line ''HTTP/1.0'' 200 (case responses lib 200 of Some r \<Rightarrow> fst r | None \<Rightarrow> []),
              Header ''Server'' (version_string lib),
              Header ''Date'' (date_time_string lib None),
              Header ''Content-type'' ''application/javascript'',
              Header ''Content-Length'' (str (st_size f)),
              Header ''Last-Modified'' (date_time_string lib (Some (st_mtime f)))] @
             fixed_headers @ [Blank_Line] @ (if c = GET then [Body (data f)] else [])"
  proof (cases c)
    case GET
    then have hr: "handle_request lib ?tm c h =
        base_do_GET lib ?tm (end_headers base_end_headers) g"
      by (simp add: handle_request_def handle_command_def do_GET_def g_def)
    show ?thesis
      unfolding hr base_do_GET_def head
      using GET by (simp add: ok_wfile [OF v] w)
  next
    case HEAD
    then have hr: "handle_request lib ?tm c h =
        base_do_HEAD lib ?tm (end_headers base_end_headers) g"
      by (simp add: handle_request_def handle_command_def do_HEAD_def g_def)
    show ?thesis
      unfolding hr base_do_HEAD_def head
      using HEAD by (simp add: ok_wfile [OF v] w)
  qed
  moreover have "types_map (run platform s (fst (program dirname abspath file w))) = ?tm"
    by (simp add: program_eq run_append run_keeps_types_map)
  ultimately show ?thesis
    by simp
qed

theorem typescript_served_as_javascript_witness:
  "wfile (handle_request example_library example_types GET
            (example_request ''GET'' ''/app.tsx'' ''HTTP/1.1'' [])) =
     [Status_Line ''HTTP/1.0'' 200 ''OK'',
      Header ''Server'' ''SimpleHTTP/0.6 Python/3.11.10'',
      Header ''Date'' ''Thu, 01 Jan 1970 00:00:00 GMT'',
      Header ''Content-type'' ''application/javascript'',
      Header ''Content-Length'' ''14'',
      Header ''Last-Modified'' ''Thu, 01 Jan 1970 00:00:00 GMT'',
      Header ''Access-Control-Allow-Origin'' ''*'',
      Header ''Cache-Control'' ''no-store, no-cache, must-revalidate, max-age=0'',
      Header ''Pragma'' ''no-cache'',
      Header ''Expires'' ''0'',
      Blank_Line,
      Body ''const App = 1;'']"
proof -
  let ?h = "example_request ''GET'' ''/app.tsx'' ''HTTP/1.1'' []"
  let ?f = "\<lparr>data = ''const App = 1;'', st_size = 14, st_mtime = 0\<rparr>"
  have 1: "request_version ?h \<noteq> ''HTTP/0.9''"
    by (simp add: example_request_def)
  have 2: "''/srv/game/app.tsx'' = translate_path example_library (directory ?h)
             (if GET = GET \<and> path ?h = ''/'' then ''/index.html'' else path ?h)"
    by (simp add: example_request_def example_library_def)
  have 3: "lower (snd (splitext ''/srv/game/app.tsx'')) \<in> {''.ts'', ''.tsx''}"
    by (simp add: splitext_def lower_def lower_char_def)
  have 4: "length (fst (urlparse example_library ''/srv/game/app.tsx'')) \<le> 1"
    by (simp add: example_library_def)
  have 5: "\<not> isdir example_library ''/srv/game/app.tsx''"
    by (simp add: example_library_def)
  have 6: "open_rb example_library ''/srv/game/app.tsx'' = Some ?f"
    by (simp add: example_library_def)
  have 7: "\<not> not_modified example_library ?h ?f"
    by (simp add: not_modified_def get_header_def example_request_def)
  have 14: "str 14 = ''14''"
    by (simp add: str.simps)
  from typescript_served_as_javascript [OF 1 2 3 4 5 6 7, THEN conjunct1,
      of Map.empty "\<lparr>types_map = Map.empty, cwd = ''/'', stdout = []\<rparr>"]
  show ?thesis
    by (simp add: example_types_def example_request_def example_library_def fixed_headers_def 14)
qed

text \<open>
  The claim as it stands fails for two requests for the file \<^verbatim>\<open>app.tsx\<close>. The simple
  request \<^verbatim>\<open>GET /app.tsx\<close>, without a version, is answered with the bytes of the file and no
  header at all. A conditional request for a file that has not changed is answered with
  304 and no \<^verbatim>\<open>Content-type\<close>.
\<close>

theorem typescript_without_content_type:
  "wfile (handle_request example_library example_types GET
            (example_request ''GET'' ''/app.tsx'' ''HTTP/0.9'' [])) =
     [Body ''const App = 1;'']
   \<and> wfile (handle_request example_library example_types GET
            (example_request ''GET'' ''/app.tsx'' ''HTTP/1.1''
               [(''If-Modified-Since'', ''Thu, 01 Jan 1970 00:00:00 GMT'')])) =
     [Status_Line ''HTTP/1.0'' 304 ''Not Modified'',
      Header ''Server'' ''SimpleHTTP/0.6 Python/3.11.10'',
      Header ''Date'' ''Thu, 01 Jan 1970 00:00:00 GMT'',
      Header ''Access-Control-Allow-Origin'' ''*'',
      Header ''Cache-Control'' ''no-store, no-cache, must-revalidate, max-age=0'',
      Header ''Pragma'' ''no-cache'',
      Header ''Expires'' ''0'',
      Blank_Line]"
  by code_simp

section \<open>Paths that are not found\<close>




text \<open>
  Claim C9. The substitution compares the request target as it was sent with \<^verbatim>\<open>/\<close>: every
  other target, the root with a query string such as \<^verbatim>\<open>/?v=1\<close> included, reaches the
  inherited method as it is.
\<close>

theorem other_targets_not_rewritten:
  "path h \<noteq> ''/'' \<Longrightarrow> do_GET super_do_GET h = super_do_GET h"
  by (simp add: do_GET_def)

theorem other_targets_not_rewritten_witness:
  "do_GET path (example_request ''GET'' ''/?v=1'' ''HTTP/1.1'' [])
   = ''/?v=1''"
proof -
  have "path (example_request ''GET'' ''/?v=1'' ''HTTP/1.1'' []) \<noteq> ''/''"
    by (simp add: example_request_def)
  from other_targets_not_rewritten [OF this, of path] show ?thesis
    by (simp add: example_request_def)
qed

text \<open>
  Claim C10. Only GET has the substitution. A HEAD request goes to the inherited method
  with its target unchanged, while a GET of \<^verbatim>\<open>/\<close> goes to the inherited method with
  \<^verbatim>\<open>/index.html\<close>; so the two inherited methods are asked about different targets, as
  the third part shows by letting both return the target they are given.
\<close>

theorem head_not_rewritten:
  "handle_command super_do_GET super_do_HEAD HEAD h = super_do_HEAD h
   \<and> handle_command super_do_GET super_do_HEAD GET (h\<lparr>path := ''/''\<rparr>) =
       super_do_GET (h\<lparr>path := ''/index.html''\<rparr>)
   \<and> handle_command path path HEAD (h\<lparr>path := ''/''\<rparr>) \<noteq>
       handle_command path path GET (h\<lparr>path := ''/''\<rparr>)"
  by (simp add: handle_command_def do_GET_def do_HEAD_def)

section \<open>Starting and stopping\<close>

text \<open>
  Claim C5, as amended. When creating the server fails because the port cannot be bound
  (an \<^verbatim>\<open>OSError\<close>, a subclass of \<^verbatim>\<open>Exception\<close>), the program prints the failure with the
  exception's text, then the hint to close other instances, and returns: the process ends
  and the serve loop is never entered. Any other \<^verbatim>\<open>Exception\<close> raised inside the guarded
  block of lines 61-66, by creating the server or by the serve loop, is caught and printed
  the same way, after which the process ends. This holds whatever the launch of the
  browser did; an exception of the launch itself is swallowed by the bare \<^verbatim>\<open>except\<close> of
  lines 56-59. An exception that is no \<^verbatim>\<open>Exception\<close> is not reported as a failure: a
  \<^verbatim>\<open>KeyboardInterrupt\<close> prints the shutdown message, any other leaves the function.
\<close>

theorem startup_failure_reported:
  "(bind w = Some (Exception e) \<longrightarrow>
      start_game_server d w =
        (fst (banner d) @
           [Browser_Open ''http://localhost:8000'', Server_Create [] 8000,
            Print (Msg_Start_Failed e), Print Msg_Port_Hint], Returns)
      \<and> Serve_Forever \<notin> set (fst (start_game_server d w)))
   \<and> (bind w = None \<and> serve w = Raises (Exception e) \<longrightarrow>
      start_game_server d w =
        (fst (banner d) @
           [Browser_Open ''http://localhost:8000'', Server_Create [] 8000,
            Print Msg_Started, Print Msg_Blank_Page_Hint, Print Msg_Stop_Hint,
            Serve_Forever, Server_Close,
            Print (Msg_Start_Failed e), Print Msg_Port_Hint], Returns))
   \<and> (bind w = Some KeyboardInterrupt \<longrightarrow>
      start_game_server d w =
        (fst (banner d) @
           [Browser_Open ''http://localhost:8000'', Server_Create [] 8000,
            Print Msg_Shutdown], Returns))
   \<and> (bind w = Some (Other_BaseException x) \<longrightarrow>
      start_game_server d w =
        (fst (banner d) @
           [Browser_Open ''http://localhost:8000'', Server_Create [] 8000],
         Raises (Other_BaseException x)))"
  by (simp add: start_game_server_eq serve_block_bind_raises serve_block_bound
      except_clauses_Exception except_clauses_KeyboardInterrupt banner_eq)
     (simp add: except_clauses_def)

theorem startup_failure_reported_witness:
  "start_game_server ''/srv/game''
     \<lparr>browser = None, bind = Some (Exception ''[Errno 98] Address already in use''),
      serve = Diverges\<rparr> =
     ([Chdir ''/srv/game'', Print Banner_Top, Print Banner_Title,
       Print (Banner_Directory ''/srv/game''),
       Print (Banner_Address ''http://localhost:8000''), Print Banner_Bottom,
       Browser_Open ''http://localhost:8000'', Server_Create [] 8000,
       Print (Msg_Start_Failed ''[Errno 98] Address already in use''), Print Msg_Port_Hint],
      Returns)
   \<and> start_game_server ''/srv/game''
     \<lparr>browser = None, bind = None, serve = Raises (Exception ''select failed'')\<rparr> =
     ([Chdir ''/srv/game'', Print Banner_Top, Print Banner_Title,
       Print (Banner_Directory ''/srv/game''),
       Print (Banner_Address ''http://localhost:8000''), Print Banner_Bottom,
       Browser_Open ''http://localhost:8000'', Server_Create [] 8000,
       Print Msg_Started, Print Msg_Blank_Page_Hint, Print Msg_Stop_Hint,
       Serve_Forever, Server_Close,
       Print (Msg_Start_Failed ''select failed''), Print Msg_Port_Hint], Returns)
   \<and> start_game_server ''/srv/game''
     \<lparr>browser = None, bind = Some KeyboardInterrupt, serve = Diverges\<rparr> =
     ([Chdir ''/srv/game'', Print Banner_Top, Print Banner_Title,
       Print (Banner_Directory ''/srv/game''),
       Print (Banner_Address ''http://localhost:8000''), Print Banner_Bottom,
       Browser_Open ''http://localhost:8000'', Server_Create [] 8000,
       Print Msg_Shutdown], Returns)
   \<and> start_game_server ''/srv/game''
     \<lparr>browser = None, bind = Some (Other_BaseException ''SystemExit''), serve = Diverges\<rparr> =
     ([Chdir ''/srv/game'', Print Banner_Top, Print Banner_Title,
       Print (Banner_Directory ''/srv/game''),
       Print (Banner_Address ''http://localhost:8000''), Print Banner_Bottom,
       Browser_Open ''http://localhost:8000'', Server_Create [] 8000],
      Raises (Other_BaseException ''SystemExit''))"
  using
    startup_failure_reported
      [of "\<lparr>browser = None, bind = Some (Exception ''[Errno 98] Address already in use''),
            serve = Diverges\<rparr>"
          "''[Errno 98] Address already in use''" "''/srv/game''"]
    startup_failure_reported
      [of "\<lparr>browser = None, bind = None, serve = Raises (Exception ''select failed'')\<rparr>"
          "''select failed''" "''/srv/game''"]
    startup_failure_reported
      [of "\<lparr>browser = None, bind = Some KeyboardInterrupt, serve = Diverges\<rparr>"
          _ "''/srv/game''"]
    startup_failure_reported
      [of "\<lparr>browser = None, bind = Some (Other_BaseException ''SystemExit''), serve = Diverges\<rparr>"
          _ "''/srv/game''" "''SystemExit''"]
  by (simp add: banner_eq)

text \<open>
  The claim as it stands fails: not every exception raised during startup is caught,
  printed and fatal. When the launch of the browser raises, nothing is printed about it
  and startup goes on: the server is created and serves.
\<close>

theorem browser_failure_is_not_reported:
  "start_game_server ''/srv/game''
     \<lparr>browser = Some (Exception ''no browser''), bind = None, serve = Diverges\<rparr> =
     ([Chdir ''/srv/game'', Print Banner_Top, Print Banner_Title,
       Print (Banner_Directory ''/srv/game''),
       Print (Banner_Address ''http://localhost:8000''), Print Banner_Bottom,
       Browser_Open ''http://localhost:8000'', Server_Create [] 8000,
       Print Msg_Started, Print Msg_Blank_Page_Hint, Print Msg_Stop_Hint,
       Serve_Forever], Diverges)"
  by (simp add: start_game_server_eq banner_eq serve_block_bound except_clauses_def)

text \<open>
  Claim C6. A \<^verbatim>\<open>KeyboardInterrupt\<close> while the server is serving leaves the serve loop, the
  server is closed, the shutdown message is printed and \<open>start_game_server\<close> returns: the
  process ends normally, not with a traceback.
\<close>

theorem interrupt_is_clean_shutdown:
  "bind w = None \<Longrightarrow> serve w = Raises KeyboardInterrupt \<Longrightarrow>
     start_game_server d w =
       (fst (banner d) @
          [Browser_Open ''http://localhost:8000'', Server_Create [] 8000,
           Print Msg_Started, Print Msg_Blank_Page_Hint, Print Msg_Stop_Hint,
           Serve_Forever, Server_Close, Print Msg_Shutdown], Returns)"
  by (simp add: start_game_server_eq serve_block_bound except_clauses_KeyboardInterrupt)

theorem interrupt_is_clean_shutdown_witness:
  "start_game_server ''/srv/game''
     \<lparr>browser = None, bind = None, serve = Raises KeyboardInterrupt\<rparr> =
     ([Chdir ''/srv/game'', Print Banner_Top, Print Banner_Title,
       Print (Banner_Directory ''/srv/game''),
       Print (Banner_Address ''http://localhost:8000''), Print Banner_Bottom,
       Browser_Open ''http://localhost:8000'', Server_Create [] 8000,
       Print Msg_Started, Print Msg_Blank_Page_Hint, Print Msg_Stop_Hint,
       Serve_Forever, Server_Close, Print Msg_Shutdown], Returns)"
  using interrupt_is_clean_shutdown
    [of "\<lparr>browser = None, bind = None, serve = Raises KeyboardInterrupt\<rparr>" "''/srv/game''"]
  by (simp add: banner_eq)

text \<open>
  Claim C7. The root directory is computed once, when the program starts, as the directory
  that holds the program; the working directory is changed to it at startup and nothing
  changes it afterwards. In a run, \<^verbatim>\<open>DIRECTORY\<close> is one value, the directory part of the
  program's absolute path (with POSIX paths: for a program \<open>name\<close> in \<open>dir\<close> it is
  \<open>dir\<close>). The run has exactly one \<^verbatim>\<open>chdir\<close>, to that value: after the first four
  events, which are the top level of the module, the working directory is
  \<^verbatim>\<open>DIRECTORY\<close> at every later point of the run, however the run goes. Every handler is
  created with that directory, and neither \<open>do_GET\<close> nor \<open>end_headers\<close> changes the
  directory of a handler.
\<close>

theorem root_directory_fixed:
  "(CHR ''/'' \<notin> set name \<and> dir \<noteq> [] \<and> last dir \<noteq> CHR ''/'' \<and> abspath file = dir @ ''/'' @ name
      \<longrightarrow> DIRECTORY posix_dirname abspath file = dir)
   \<and> filter is_chdir (fst (program dirname abspath file w)) =
       [Chdir (DIRECTORY dirname abspath file)]
   \<and> cwd (run platform s (take n (fst (program dirname abspath file w)))) =
       (if n < 5 then cwd s else DIRECTORY dirname abspath file)
   \<and> init (DIRECTORY dirname abspath file) super_init args =
       super_init (DIRECTORY dirname abspath file) args
   \<and> do_GET directory h = directory h
   \<and> directory (end_headers base_end_headers h) = directory h"
proof -
  have "DIRECTORY posix_dirname abspath file = dir"
    if "CHR ''/'' \<notin> set name" "dir \<noteq> []" "last dir \<noteq> CHR ''/''" "abspath file = dir @ ''/'' @ name"
    using that posix_dirname_of_file [of name dir] by (simp add: DIRECTORY_def)
  moreover have "do_GET directory h = directory h"
    by (simp add: do_GET_def)
  moreover have "directory (end_headers base_end_headers h) = directory h"
    by (rule end_headers_keeps)
  ultimately show ?thesis
    by (simp add: chdir_once cwd_prefix init_def)
qed

theorem root_directory_fixed_witness:
  "DIRECTORY posix_dirname (\<lambda>f. ''/home/u/game/'' @ f) ''main.py'' = ''/home/u/game''"
proof -
  have "CHR ''/'' \<notin> set ''main.py'' \<and> ''/home/u/game'' \<noteq> [] \<and> last ''/home/u/game'' \<noteq> CHR ''/''
        \<and> (\<lambda>f. ''/home/u/game/'' @ f) ''main.py'' = ''/home/u/game'' @ ''/'' @ ''main.py''"
    by simp
  from root_directory_fixed
    [of "''main.py''" "''/home/u/game''" "\<lambda>f. ''/home/u/game/'' @ f" "''main.py''",
     THEN conjunct1, rule_format, OF this]
  show ?thesis .
qed

text \<open>
  Claim C8. The effects of startup come in this order: the MIME types are registered, the
  banner is printed, the browser is asked to open the server's address, and only then the
  serve loop is entered. Every run begins with the same eleven events: the four of the
  module's top level, the change of directory and the five lines of the banner, and the
  call \<^verbatim>\<open>webbrowser.open("http://localhost:8000")\<close>. The serve loop is entered after them,
  and exactly when the server could be created. A failure of the browser is ignored: the
  run is the same whether \<^verbatim>\<open>webbrowser.open\<close> returns or raises, and nothing is printed
  about it.
\<close>

theorem startup_order:
  "\<exists>rest. fst (program dirname abspath file w) =
      [Mime_Init,
       Add_Type ''application/javascript'' ''.ts'',
       Add_Type ''application/javascript'' ''.tsx'',
       Add_Type ''application/json'' ''.json'',
       Chdir (DIRECTORY dirname abspath file),
       Print Banner_Top, Print Banner_Title,
       Print (Banner_Directory (DIRECTORY dirname abspath file)),
       Print (Banner_Address ''http://localhost:8000''), Print Banner_Bottom,
       Browser_Open ''http://localhost:8000''] @ rest
     \<and> (Serve_Forever \<in> set rest) = (bind w = None)
     \<and> program dirname abspath file (w\<lparr>browser := b\<rparr>) = program dirname abspath file w"
  by (simp add: program_eq start_game_server_eq module_level_eq banner_eq serve_forever_entered
      serve_block_browser)

end
